theory Spec2Isabelle
  imports Complex_Main "HOL-Library.Multiset"
begin

section \<open>JavaScript numbers\<close>

text \<open>
  A JavaScript number is an IEEE 754 binary64 value. A finite value is kept as the
  rational it denotes; the two infinities and NaN are constructors of their own, so that
  a division by zero is a value of the model and not an unspecified term. Negative zero
  is identified with zero: the dashboard never reads the sign of a zero, and the only
  divisors that can be zero here are array lengths, which are never negative, and sums
  of costs, which are a negative zero only when every cost is one, the numerator then
  being a zero as well.
\<close>

datatype jsnum = Fin rat | PInf | NInf | NaN

function bit_length :: "int \<Rightarrow> nat" where
  "bit_length k = (if k \<le> 0 then 0 else Suc (bit_length (k div 2)))"
  by pat_completeness auto
termination
  by (relation "measure nat") auto

declare bit_length.simps [simp del]

definition pow2 :: "int \<Rightarrow> rat" where
  "pow2 e = (if 0 \<le> e then 2 ^ nat e else 1 / 2 ^ nat (- e))"

text \<open>\<open>flog2 x\<close> is the binary exponent of a positive rational: \<open>2 ^ e \<le> x < 2 ^ (e + 1)\<close>.\<close>

definition flog2 :: "rat \<Rightarrow> int" where
  "flog2 x = (case quotient_of x of (a, b) \<Rightarrow>
     let e = int (bit_length a) - int (bit_length b)
     in if pow2 e \<le> x then e else e - 1)"

definition round_half_even :: "rat \<Rightarrow> int" where
  "round_half_even x = (let f = \<lfloor>x\<rfloor>; d = x - of_int f in
     if d < 1 / 2 then f else if 1 / 2 < d then f + 1
     else if even f then f else f + 1)"

text \<open>
  \<open>fl\<close> rounds an exact result to the nearest binary64 value, ties to even: 53 bits of
  precision, the smallest quantum \<open>2 ^ -1074\<close> (subnormals), overflow to an infinity
  when the rounded magnitude reaches \<open>2 ^ 1024\<close>, that is when its binary exponent
  is at least 1024.
\<close>

definition fl :: "rat \<Rightarrow> jsnum" where
  "fl x = (if x = 0 then Fin 0 else
     let q = max (flog2 \<bar>x\<bar> - 52) (- 1074);
         r = of_int (round_half_even (x / pow2 q)) * pow2 q
     in if 1024 \<le> flog2 \<bar>r\<bar> then (if 0 < x then PInf else NInf) else Fin r)"

fun is_neg :: "jsnum \<Rightarrow> bool" where
  "is_neg (Fin a) = (a < 0)"
| "is_neg NInf = True"
| "is_neg PInf = False"
| "is_neg NaN = False"

fun js_neg :: "jsnum \<Rightarrow> jsnum" where
  "js_neg (Fin a) = Fin (- a)"
| "js_neg PInf = NInf"
| "js_neg NInf = PInf"
| "js_neg NaN = NaN"

text \<open>The operators \<open>+\<close>, \<open>-\<close>, \<open>*\<close> and \<open>/\<close> on numbers.\<close>

fun js_add :: "jsnum \<Rightarrow> jsnum \<Rightarrow> jsnum" where
  "js_add (Fin a) (Fin b) = fl (a + b)"
| "js_add NaN y = NaN"
| "js_add x NaN = NaN"
| "js_add PInf NInf = NaN"
| "js_add NInf PInf = NaN"
| "js_add PInf y = PInf"
| "js_add NInf y = NInf"
| "js_add x PInf = PInf"
| "js_add x NInf = NInf"

definition js_sub :: "jsnum \<Rightarrow> jsnum \<Rightarrow> jsnum" where
  "js_sub x y = js_add x (js_neg y)"

definition js_mul :: "jsnum \<Rightarrow> jsnum \<Rightarrow> jsnum" where
  "js_mul x y = (case (x, y) of
      (Fin a, Fin b) \<Rightarrow> fl (a * b)
    | _ \<Rightarrow> if x = NaN \<or> y = NaN \<or> x = Fin 0 \<or> y = Fin 0 then NaN
           else if is_neg x \<noteq> is_neg y then NInf else PInf)"

fun js_div :: "jsnum \<Rightarrow> jsnum \<Rightarrow> jsnum" where
  "js_div (Fin a) (Fin b) =
     (if b = 0 then (if a = 0 then NaN else if a < 0 then NInf else PInf)
      else fl (a / b))"
| "js_div NaN y = NaN"
| "js_div x NaN = NaN"
| "js_div (Fin a) y = Fin 0"
| "js_div x (Fin b) = (if is_neg x \<noteq> (b < 0) then NInf else PInf)"
| "js_div x y = NaN"

text \<open>\<open>isNaN\<close>, and the test "NaN or an infinity" that \<open>Number.isFinite\<close> negates.\<close>

fun isNaN :: "jsnum \<Rightarrow> bool" where
  "isNaN NaN = True"
| "isNaN x = False"


text \<open>The \<open>length\<close> of an array: an integer below \<open>2 ^ 32\<close>, hence exact.\<close>

definition js_length :: "'a list \<Rightarrow> jsnum" where
  "js_length xs = Fin (of_nat (length xs))"

section \<open>Scenario calculator\<close>

text \<open>
  The catalog \<open>scenarios\<close> and \<open>calculateScenarioImpact\<close> are the same in every variant
  of the dashboard. A decimal literal denotes the binary64 value nearest to it.
\<close>

record scenario =
  id_s :: string
  name_s :: string
  reduction :: jsnum
  cost_s :: jsnum
  type_s :: string

definition scenarios :: "scenario list" where
  "scenarios =
    [\<lparr>id_s = ''scenario1'', name_s = ''Enhanced stormwater infrastructure'',
      reduction = fl (25 / 100), cost_s = Fin 2000000, type_s = ''flood''\<rparr>,
     \<lparr>id_s = ''scenario2'', name_s = ''Wind-resistant building upgrades'',
      reduction = fl (40 / 100), cost_s = Fin 3500000, type_s = ''hurricane''\<rparr>,
     \<lparr>id_s = ''scenario3'', name_s = ''Wildfire prevention measures'',
      reduction = fl (30 / 100), cost_s = Fin 1500000, type_s = ''fire''\<rparr>,
     \<lparr>id_s = ''scenario4'', name_s = ''Winter weather preparedness'',
      reduction = fl (20 / 100), cost_s = Fin 1000000, type_s = ''winter''\<rparr>]"

record scenario_result =
  currentProjection :: jsnum
  withMitigation :: jsnum
  savings :: jsnum
  cost :: jsnum

text \<open>
  The \<open>forEach\<close> loop over the selected ids, with its two accumulators
  \<open>(totalReduction, totalCost)\<close>; an id that is not in the catalog adds nothing.
\<close>

fun forEach_selected :: "string list \<Rightarrow> jsnum \<times> jsnum \<Rightarrow> jsnum \<times> jsnum" where
  "forEach_selected [] acc = acc"
| "forEach_selected (scenarioId # rest) (totalReduction, totalCost) =
     (case find (\<lambda>s. id_s s = scenarioId) scenarios of
        Some sc \<Rightarrow> forEach_selected rest
                    (js_add totalReduction (reduction sc), js_add totalCost (cost_s sc))
      | None \<Rightarrow> forEach_selected rest (totalReduction, totalCost))"

definition totalReduction :: "string list \<Rightarrow> jsnum" where
  "totalReduction selectedScenarios = fst (forEach_selected selectedScenarios (Fin 0, Fin 0))"

definition baseProjection :: jsnum where
  "baseProjection = Fin 24500000"

definition calculateScenarioImpact :: "string list \<Rightarrow> scenario_result" where
  "calculateScenarioImpact selectedScenarios =
    (let (totalReduction, totalCost) = forEach_selected selectedScenarios (Fin 0, Fin 0);
         reducedCost = js_mul baseProjection
           (js_sub (Fin 1) (js_div totalReduction (js_length selectedScenarios)));
         savings = js_sub baseProjection reducedCost
     in \<lparr>currentProjection = baseProjection, withMitigation = reducedCost,
         savings = savings, cost = totalCost\<rparr>)"

section \<open>Strings\<close>

text \<open>
  The text of a CSV field is a \<open>string\<close>; its characters are read as the code units
  U+0000 to U+00FF. A field that the row does not have is \<open>undefined\<close>, the value
  \<open>None\<close> of a \<open>string option\<close>.

  \<open>toLowerCase\<close> maps the capital letters of that range (A to Z, and U+00C0 to U+00DE
  without the multiplication sign U+00D7) to the letter 32 places further on. \<open>trim\<close>
  removes white space and line terminators at both ends: TAB, LF, VT, FF, CR, SP and the
  no-break space U+00A0. \<open>includes\<close> (here \<open>includes_str\<close>) is the test for a contiguous substring.
\<close>

definition toLowerCase_char :: "char \<Rightarrow> char" where
  "toLowerCase_char c =
     (let n = (of_char c :: nat)
      in if (65 \<le> n \<and> n \<le> 90) \<or> (192 \<le> n \<and> n \<le> 222 \<and> n \<noteq> 215)
         then char_of (n + 32) else c)"

definition toLowerCase :: "string \<Rightarrow> string" where
  "toLowerCase s = map toLowerCase_char s"

definition is_white_space :: "char \<Rightarrow> bool" where
  "is_white_space c = ((of_char c :: nat) \<in> {9, 10, 11, 12, 13, 32, 160})"

definition trimStart :: "string \<Rightarrow> string" where
  "trimStart s = dropWhile is_white_space s"

definition trim :: "string \<Rightarrow> string" where
  "trim s = rev (dropWhile is_white_space (rev (dropWhile is_white_space s)))"

fun startsWith :: "string \<Rightarrow> string \<Rightarrow> bool" where
  "startsWith s [] = True"
| "startsWith [] (k # ks) = False"
| "startsWith (c # cs) (k # ks) = (c = k \<and> startsWith cs ks)"

fun includes_str :: "string \<Rightarrow> string \<Rightarrow> bool" where
  "includes_str [] k = (k = [])"
| "includes_str (c # cs) k = (startsWith (c # cs) k \<or> includes_str cs k)"

section \<open>Event-type classifier\<close>

text \<open>
  \<open>normalizeWeatherType\<close>, the helper of the primary dashboard. An absent or empty
  description is falsy and gives \<open>Other\<close> before any matching.
\<close>

definition normalizeWeatherType :: "string option \<Rightarrow> string" where
  "normalizeWeatherType type =
    (case type of
       None \<Rightarrow> ''Other''
     | Some t \<Rightarrow>
        if t = [] then ''Other''
        else let lowerType = trim (toLowerCase t) in
          if includes_str lowerType ''hurricane'' \<or> includes_str lowerType ''tropical''
             \<or> includes_str lowerType ''cyclone'' \<or> includes_str lowerType ''mawar''
          then ''Hurricane/Tropical Storm''
          else if includes_str lowerType ''winter'' \<or> includes_str lowerType ''snow''
             \<or> includes_str lowerType ''arctic'' \<or> includes_str lowerType ''ice''
          then ''Winter Storm''
          else if includes_str lowerType ''storm'' \<or> includes_str lowerType ''wind''
             \<or> includes_str lowerType ''nor'easter''
             \<or> includes_str lowerType ''atmospheric river''
          then ''Severe Storm''
          else if includes_str lowerType ''flood'' \<or> includes_str lowerType ''water''
             \<or> includes_str lowerType ''rain''
          then ''Flooding''
          else if includes_str lowerType ''tornado'' \<or> includes_str lowerType ''torando''
          then ''Tornado''
          else if includes_str lowerType ''hail'' then ''Hail''
          else if includes_str lowerType ''fire'' then ''Fire''
          else if includes_str lowerType ''earthquake'' then ''Earthquake''
          else if includes_str lowerType ''wave'' then ''Wave''
          else ''Other'')"

text \<open>
  The classifier as the specification words it: an ordered list of rules, each a
  category with its keywords, and one generic matcher that returns the category of the
  first rule with a keyword contained in the lower-cased, trimmed description.
\<close>

definition category_rules :: "(string \<times> string list) list" where
  "category_rules =
    [(''Hurricane/Tropical Storm'', [''hurricane'', ''tropical'', ''cyclone'', ''mawar'']),
     (''Winter Storm'', [''winter'', ''snow'', ''arctic'', ''ice'']),
     (''Severe Storm'', [''storm'', ''wind'', ''nor'easter'', ''atmospheric river'']),
     (''Flooding'', [''flood'', ''water'', ''rain'']),
     (''Tornado'', [''tornado'', ''torando'']),
     (''Hail'', [''hail'']),
     (''Fire'', [''fire'']),
     (''Earthquake'', [''earthquake'']),
     (''Wave'', [''wave''])]"

definition classify_spec :: "string option \<Rightarrow> string" where
  "classify_spec description =
    (case description of
       None \<Rightarrow> ''Other''
     | Some d \<Rightarrow>
        if d = [] then ''Other''
        else (case find (\<lambda>rule. list_ex (includes_str (trim (toLowerCase d))) (snd rule))
                     category_rules of
                Some rule \<Rightarrow> fst rule
              | None \<Rightarrow> ''Other''))"

definition event_categories :: "string list" where
  "event_categories =
    [''Hurricane/Tropical Storm'', ''Winter Storm'', ''Severe Storm'', ''Flooding'',
     ''Tornado'', ''Hail'', ''Fire'', ''Earthquake'', ''Wave'', ''Other'']"

section \<open>Parsing numbers\<close>

definition is_digit :: "char \<Rightarrow> bool" where
  "is_digit c = (48 \<le> (of_char c :: int) \<and> (of_char c :: int) \<le> 57)"

definition digit_value :: "char \<Rightarrow> int" where
  "digit_value c = of_char c - 48"

text \<open>The value of a string of decimal digits, most significant digit first.\<close>

definition digits_value :: "string \<Rightarrow> int" where
  "digits_value ds = foldl (\<lambda>acc c. 10 * acc + digit_value c) 0 ds"

definition pow10 :: "int \<Rightarrow> rat" where
  "pow10 e = (if 0 \<le> e then 10 ^ nat e else 1 / 10 ^ nat (- e))"

text \<open>
  An optional sign in front of the rest of the text: the factor it stands for and the
  text behind it.
\<close>

fun strip_sign :: "string \<Rightarrow> int \<times> string" where
  "strip_sign [] = (1, [])"
| "strip_sign (c # cs) =
     (if c = CHR ''-'' then (- 1, cs) else if c = CHR ''+'' then (1, cs) else (1, c # cs))"

text \<open>
  The exponent part behind a mantissa: \<open>e\<close> or \<open>E\<close>, an optional sign and at least one
  digit. Without a digit there is no exponent part, and the prefix ends before the
  letter.
\<close>

definition exponent_part :: "string \<Rightarrow> int" where
  "exponent_part r =
     (case r of
        [] \<Rightarrow> 0
      | c # cs \<Rightarrow>
         if c = CHR ''e'' \<or> c = CHR ''E''
         then (case strip_sign cs of
                 (sg, ds) \<Rightarrow>
                   if takeWhile is_digit ds = [] then 0
                   else sg * digits_value (takeWhile is_digit ds))
         else 0)"

text \<open>\<open>ToString\<close> of a field: a missing field reads as the text "undefined".\<close>

definition ToString :: "string option \<Rightarrow> string" where
  "ToString v = (case v of None \<Rightarrow> ''undefined'' | Some s \<Rightarrow> s)"

text \<open>
  \<open>parseFloat\<close>: leading white space is skipped, then the longest prefix that is a
  decimal literal (\<open>Infinity\<close>, or digits with an optional fraction and exponent, with
  an optional sign) is read and rounded to a double. Without such a prefix the result is
  NaN.
\<close>

definition parseFloat :: "string \<Rightarrow> jsnum" where
  "parseFloat s =
     (case strip_sign (trimStart s) of
        (sg, t) \<Rightarrow>
          if startsWith t ''Infinity'' then (if sg < 0 then NInf else PInf)
          else
            let ip = takeWhile is_digit t;
                r1 = dropWhile is_digit t;
                has_point = (r1 \<noteq> [] \<and> hd r1 = CHR ''.'');
                fp = (if has_point then takeWhile is_digit (tl r1) else []);
                r2 = (if has_point then dropWhile is_digit (tl r1) else r1)
            in if ip = [] \<and> fp = [] then NaN
               else fl (of_int sg * of_int (digits_value (ip @ fp))
                        * pow10 (exponent_part r2 - int (length fp))))"

text \<open>
  \<open>parseInt\<close> with no radix, after \<open>ToString\<close> of the argument: a prefix
  \<open>0x\<close> or \<open>0X\<close> selects base 16, otherwise the base is 10; the longest prefix of
  digits of the base is the value, and NaN if it is empty.
\<close>

definition is_hex_digit :: "char \<Rightarrow> bool" where
  "is_hex_digit c = (let n = (of_char c :: int) in
     (48 \<le> n \<and> n \<le> 57) \<or> (65 \<le> n \<and> n \<le> 70) \<or> (97 \<le> n \<and> n \<le> 102))"

definition hex_digit_value :: "char \<Rightarrow> int" where
  "hex_digit_value c = (let n = (of_char c :: int) in
     if n \<le> 57 then n - 48 else if n \<le> 70 then n - 55 else n - 87)"

definition hex_digits_value :: "string \<Rightarrow> int" where
  "hex_digits_value ds = foldl (\<lambda>acc c. 16 * acc + hex_digit_value c) 0 ds"

definition parseInt :: "string option \<Rightarrow> jsnum" where
  "parseInt arg =
     (case strip_sign (trimStart (ToString arg)) of
        (sg, t) \<Rightarrow>
          if startsWith t ''0x'' \<or> startsWith t ''0X''
          then (let z = takeWhile is_hex_digit (drop 2 t)
                in if z = [] then NaN else fl (of_int sg * of_int (hex_digits_value z)))
          else (let z = takeWhile is_digit t
                in if z = [] then NaN else fl (of_int sg * of_int (digits_value z))))"

section \<open>Dates\<close>

text \<open>
  A \<open>Date\<close> is its time value: milliseconds since the epoch, or NaN for an invalid
  date. The constructor \<open>new Date(year, month, date)\<close> and \<open>getFullYear\<close> both work in
  local time; the model takes the local zone to be UTC, so the offset that one adds the
  other removes is zero.

  Day numbers are computed with exact integers, whatever the size of the arguments. An
  engine may stop earlier: \<open>MakeDay\<close> is allowed to answer NaN when an argument is
  out of range, and V8 does so for a year beyond 1000000 or a month beyond 10000000 in
  absolute value. The two differ only where a day argument of the same size brings such
  a year or month back into the range of valid dates; everywhere else \<open>TimeClip\<close>
  gives NaN in the model too. A date text of the form MM/DD/YY is far inside these
  limits, and there the model and the engine compute the same day.
\<close>

definition msPerDay :: int where
  "msPerDay = 86400000"

definition DayFromYear :: "int \<Rightarrow> int" where
  "DayFromYear y = 365 * (y - 1970) + (y - 1969) div 4 - (y - 1901) div 100 + (y - 1601) div 400"

definition InLeapYear :: "int \<Rightarrow> bool" where
  "InLeapYear y = ((y mod 4 = 0 \<and> y mod 100 \<noteq> 0) \<or> y mod 400 = 0)"

text \<open>The number of days of year \<open>y\<close> before its month \<open>mn\<close> (0 for January).\<close>

definition DaysBeforeMonth :: "int \<Rightarrow> int \<Rightarrow> int" where
  "DaysBeforeMonth y mn =
     [0, 31, 59, 90, 120, 151, 181, 212, 243, 273, 304, 334] ! nat mn
     + (if InLeapYear y \<and> 2 \<le> mn then 1 else 0)"

text \<open>
  \<open>YearFromDay d\<close> is the year that contains day number \<open>d\<close>: the largest \<open>y\<close> with
  \<open>DayFromYear y \<le> d\<close>. It is one of the three years around the estimate that the mean
  length of a year gives.
\<close>

definition YearFromDay :: "int \<Rightarrow> int" where
  "YearFromDay d =
     (let a = 1970 + (400 * d) div 146097
      in if DayFromYear (a + 1) \<le> d then a + 1
         else if DayFromYear a \<le> d then a else a - 1)"

text \<open>\<open>ToIntegerOrInfinity\<close> of a finite number: truncation towards zero.\<close>

definition truncate :: "rat \<Rightarrow> int" where
  "truncate x = (if 0 \<le> x then \<lfloor>x\<rfloor> else - \<lfloor>- x\<rfloor>)"

text \<open>\<open>MakeDay\<close>: the day number of the given date, or \<open>None\<close> for NaN.\<close>

definition MakeDay :: "jsnum \<Rightarrow> jsnum \<Rightarrow> jsnum \<Rightarrow> int option" where
  "MakeDay year month date =
     (case (year, month, date) of
        (Fin y, Fin m, Fin dt) \<Rightarrow>
          let ym = truncate y + truncate m div 12;
              mn = truncate m mod 12
          in Some (DayFromYear ym + DaysBeforeMonth ym mn + truncate dt - 1)
      | _ \<Rightarrow> None)"

text \<open>\<open>TimeClip\<close>: a time value beyond 8.64e15 ms from the epoch is not a date.\<close>

definition TimeClip :: "int \<Rightarrow> jsnum" where
  "TimeClip t = (if 8640000000000000 < \<bar>t\<bar> then NaN else Fin (of_int t))"

text \<open>
  \<open>new Date(year, month, date)\<close>: a year from 0 to 99 stands for 1900 plus that year.
\<close>

definition Date_ymd :: "jsnum \<Rightarrow> jsnum \<Rightarrow> jsnum \<Rightarrow> jsnum" where
  "Date_ymd year month date =
     (let yr = (case year of
                  Fin y \<Rightarrow> if 0 \<le> truncate y \<and> truncate y \<le> 99
                           then Fin (1900 + of_int (truncate y)) else year
                | _ \<Rightarrow> year)
      in case MakeDay yr month date of
           None \<Rightarrow> NaN
         | Some day \<Rightarrow> TimeClip (day * msPerDay))"

definition getFullYear :: "jsnum \<Rightarrow> jsnum" where
  "getFullYear t =
     (case t of
        Fin tv \<Rightarrow> Fin (of_int (YearFromDay (\<lfloor>tv\<rfloor> div msPerDay)))
      | _ \<Rightarrow> NaN)"

section \<open>Record ingestion\<close>

text \<open>
  A row of the parsed CSV is an object with one text property per column header; the
  parser leaves out the columns a short row does not reach. A property is truthy when it
  is present and not the empty text.
\<close>

type_synonym row = "string \<rightharpoonup> string"

definition truthy :: "string option \<Rightarrow> bool" where
  "truthy v = (case v of None \<Rightarrow> False | Some s \<Rightarrow> s \<noteq> [])"

text \<open>
  A cleaned record is the row (\<open>...item\<close>) with the properties \<open>Cost\<close>, \<open>Year\<close>,
  \<open>date\<close> and \<open>weatherEventFull\<close> set on top; the other columns are read from \<open>columns\<close>.
\<close>

record event =
  columns :: row
  Cost :: jsnum
  Year :: jsnum
  date :: jsnum
  weatherEventFull :: "string option"

fun split_on :: "char \<Rightarrow> string \<Rightarrow> string list" where
  "split_on sep [] = [[]]"
| "split_on sep (c # cs) =
     (if c = sep then [] # split_on sep cs
      else (c # hd (split_on sep cs)) # tl (split_on sep cs))"

text \<open>Reading an array at an index: \<open>undefined\<close> beyond its end.\<close>

definition at_index :: "'a list \<Rightarrow> nat \<Rightarrow> 'a option" where
  "at_index xs i = (if i < length xs then Some (xs ! i) else None)"

subsection \<open>The primary dashboard\<close>

definition hasCost :: "row \<Rightarrow> bool" where
  "hasCost item = (truthy (item ''Cost'') \<and> \<not> isNaN (parseFloat (ToString (item ''Cost''))))"

definition hasDate :: "row \<Rightarrow> bool" where
  "hasDate item = truthy (item ''Date of Weather Event'')"

text \<open>
  The body of the \<open>map\<close> callback. Its \<open>try\<close> block can only fail at \<open>split\<close>, when the
  date property is not there; the \<open>catch\<close> branch then returns \<open>null\<close>, here \<open>None\<close>.
\<close>

definition transform_row :: "row \<Rightarrow> event option" where
  "transform_row item =
     (case item ''Date of Weather Event'' of
        None \<Rightarrow> None
      | Some text \<Rightarrow>
          let dateParts = split_on CHR ''/'' text;
              date = Date_ymd (js_add (Fin 2000) (parseInt (at_index dateParts 2)))
                              (js_sub (parseInt (at_index dateParts 0)) (Fin 1))
                              (parseInt (at_index dateParts 1))
          in Some \<lparr>columns = item,
                   Cost = parseFloat (ToString (item ''Cost'')),
                   Year = getFullYear date,
                   date = date,
                   weatherEventFull =
                     (if truthy (item ''Named Storm'')
                      then Some (ToString (item ''Weather Event'') @ '' (''
                                 @ ToString (item ''Named Storm'') @ '')'')
                      else item ''Weather Event'')\<rparr>)"

definition cleanedData :: "row list \<Rightarrow> event list" where
  "cleanedData data =
     List.map_filter transform_row (filter (\<lambda>item. hasCost item \<and> hasDate item) data)"

text \<open>
  \<open>fetchData\<close> and the state it sets. The request either fails with a message or
  gives a response; the CSV parser calls \<open>complete\<close> with the rows before it returns, so
  an error thrown in \<open>complete\<close> is caught by the \<open>catch\<close> of \<open>fetchData\<close>. The status of
  the response is kept as the text that the error message quotes.
\<close>

record dashboard_state =
  weatherData :: "event list"
  loading :: bool
  error :: "string option"

definition initial_state :: dashboard_state where
  "initial_state = \<lparr>weatherData = [], loading = True, error = None\<rparr>"

record response =
  ok :: bool
  status :: string
  csv_rows :: "row list"

datatype fetch_outcome = Rejected string | Resolved response

definition fetchData :: "dashboard_state \<Rightarrow> fetch_outcome \<Rightarrow> dashboard_state" where
  "fetchData st outcome =
     (case outcome of
        Rejected message \<Rightarrow>
          st\<lparr>loading := False, error := Some (''Error fetching data: '' @ message)\<rparr>
      | Resolved r \<Rightarrow>
          if \<not> ok r
          then st\<lparr>loading := False,
                  error := Some (''Error fetching data: '' @ ''HTTP error! status: '' @ status r)\<rparr>
          else if length (cleanedData (csv_rows r)) = 0
          then st\<lparr>loading := False,
                  error := Some (''Error fetching data: '' @ ''No valid data after cleaning'')\<rparr>
          else st\<lparr>weatherData := cleanedData (csv_rows r), loading := False\<rparr>)"

text \<open>What the component renders: the two early returns, then the dashboard.\<close>

datatype view = LoadingView | ErrorView string | DashboardView

definition render :: "dashboard_state \<Rightarrow> view" where
  "render st =
     (if loading st then LoadingView
      else case error st of Some e \<Rightarrow> ErrorView e | None \<Rightarrow> DashboardView)"

subsection \<open>The army_wx_data dashboard\<close>

text \<open>
  The variant that loads \<open>army_wx_data.csv\<close> filters on the cost alone and trusts the
  \<open>Year\<close> column. How \<open>new Date(text)\<close> reads a text that is not in the ISO format is
  left to the engine, so the function \<open>dateParse\<close> from the text to the time value is a
  parameter; \<open>new Date(undefined)\<close> is the invalid date.
\<close>

definition Date_text :: "(string \<Rightarrow> jsnum) \<Rightarrow> string option \<Rightarrow> jsnum" where
  "Date_text dateParse v = (case v of None \<Rightarrow> NaN | Some text \<Rightarrow> dateParse text)"

definition transform_row_army :: "(string \<Rightarrow> jsnum) \<Rightarrow> row \<Rightarrow> event" where
  "transform_row_army dateParse item =
     \<lparr>columns = item,
      Cost = parseFloat (ToString (item ''Cost'')),
      Year = (if truthy (item ''Year'') then parseFloat (ToString (item ''Year''))
              else getFullYear (Date_text dateParse (item ''Date of Weather Event''))),
      date = Date_text dateParse (item ''Date of Weather Event''),
      weatherEventFull = None\<rparr>"

text \<open>
  One admissible \<open>dateParse\<close>: an engine that accepts no text outside the ISO format
  answers NaN for the texts of this data set.
\<close>

definition dateParse_strict :: "string \<Rightarrow> jsnum" where
  "dateParse_strict text = NaN"

definition cleanedData_army :: "(string \<Rightarrow> jsnum) \<Rightarrow> row list \<Rightarrow> event list" where
  "cleanedData_army dateParse data = map (transform_row_army dateParse) (filter hasCost data)"

section \<open>Filter stage\<close>

text \<open>Strict equality \<open>===\<close> of two numbers: NaN equals nothing.\<close>

fun js_eq :: "jsnum \<Rightarrow> jsnum \<Rightarrow> bool" where
  "js_eq (Fin a) (Fin b) = (a = b)"
| "js_eq PInf PInf = True"
| "js_eq NInf NInf = True"
| "js_eq x y = False"

definition filteredData :: "event list \<Rightarrow> string \<Rightarrow> string \<Rightarrow> event list" where
  "filteredData events selectedYear selectedWeatherType =
     filter (\<lambda>item.
       if selectedYear \<noteq> ''all'' \<and> \<not> js_eq (Year item) (parseFloat selectedYear) then False
       else if selectedWeatherType \<noteq> ''all''
               \<and> normalizeWeatherType (columns item ''Weather Event'') \<noteq> selectedWeatherType
       then False
       else True) events"

definition filteredData_army :: "event list \<Rightarrow> string \<Rightarrow> string \<Rightarrow> event list" where
  "filteredData_army events selectedYear selectedWeatherType =
     filter (\<lambda>item.
       if selectedYear \<noteq> ''all'' \<and> \<not> js_eq (Year item) (parseFloat selectedYear) then False
       else if selectedWeatherType \<noteq> ''all''
               \<and> columns item ''Weather Event'' \<noteq> Some selectedWeatherType
       then False
       else True) events"

section \<open>Aggregation\<close>

text \<open>The comparisons \<open><\<close> and \<open>>\<close> of two numbers: false when either is NaN.\<close>

fun js_lt :: "jsnum \<Rightarrow> jsnum \<Rightarrow> bool" where
  "js_lt (Fin a) (Fin b) = (a < b)"
| "js_lt NaN y = False"
| "js_lt x NaN = False"
| "js_lt x NInf = False"
| "js_lt PInf y = False"
| "js_lt x y = True"

definition js_gt :: "jsnum \<Rightarrow> jsnum \<Rightarrow> bool" where
  "js_gt x y = js_lt y x"

text \<open>\<open>Math.round\<close>: the integer nearest to a finite number, a tie going up.\<close>

fun Math_round :: "jsnum \<Rightarrow> jsnum" where
  "Math_round (Fin x) = Fin (of_int \<lfloor>x + 1 / 2\<rfloor>)"
| "Math_round x = x"

subsection \<open>The lodash functions of the chains\<close>

text \<open>
  \<open>_.sumBy(items, 'Cost')\<close>: 0 for an empty array, otherwise the first cost with the
  others added to it from left to right.
\<close>

fun sumBy :: "('a \<Rightarrow> jsnum) \<Rightarrow> 'a list \<Rightarrow> jsnum" where
  "sumBy f [] = Fin 0"
| "sumBy f (x # xs) = foldl js_add (f x) (map f xs)"

text \<open>
  \<open>_.groupBy\<close> builds an object: an item goes to the array under its key, and a key
  seen for the first time becomes a new property. \<open>group_insert\<close> keeps the properties
  in the order of their creation.
\<close>

fun group_insert :: "string \<Rightarrow> 'a \<Rightarrow> (string \<times> 'a list) list \<Rightarrow> (string \<times> 'a list) list" where
  "group_insert k x [] = [(k, [x])]"
| "group_insert k x ((k', xs) # gs) =
     (if k' = k then (k', xs @ [x]) # gs else (k', xs) # group_insert k x gs)"

definition group_properties :: "('a \<Rightarrow> string) \<Rightarrow> 'a list \<Rightarrow> (string \<times> 'a list) list" where
  "group_properties key xs = foldl (\<lambda>gs x. group_insert (key x) x gs) [] xs"

text \<open>
  The properties of an object are enumerated with the array indices first, in ascending
  numeric order, and the other names after them in the order of their creation. An array
  index is the decimal text, without leading zeros, of an integer below \<open>2 ^ 32 - 1\<close>.
\<close>

definition is_array_index :: "string \<Rightarrow> bool" where
  "is_array_index k =
     (k \<noteq> [] \<and> list_all is_digit k \<and> (k = ''0'' \<or> hd k \<noteq> CHR ''0'')
      \<and> digits_value k < 4294967295)"

definition own_keys_order :: "(string \<times> 'b) list \<Rightarrow> (string \<times> 'b) list" where
  "own_keys_order ps =
     sort_key (\<lambda>p. digits_value (fst p)) (filter (\<lambda>p. is_array_index (fst p)) ps)
     @ filter (\<lambda>p. \<not> is_array_index (fst p)) ps"

definition groupBy :: "('a \<Rightarrow> string) \<Rightarrow> 'a list \<Rightarrow> (string \<times> 'a list) list" where
  "groupBy key xs = own_keys_order (group_properties key xs)"

text \<open>
  \<open>compareAscending\<close> of lodash on two numbers: NaN counts as above every number.
\<close>

definition compareAscending :: "jsnum \<Rightarrow> jsnum \<Rightarrow> int" where
  "compareAscending v other =
     (if \<not> js_eq v other then
        (if js_gt v other \<or> isNaN v then 1
         else if js_lt v other \<or> isNaN other then - 1
         else 0)
      else 0)"

text \<open>
  \<open>_.orderBy(xs, [f], ['desc'])\<close> hands the array to the engine's \<open>sort\<close> with the
  comparer that negates \<open>compareAscending\<close> and, when that gives 0, compares the
  original indices.

  While at most one of the values is NaN this comparer is a consistent total order, the
  sorted array is determined by it, and inserting the elements from the right, each
  before the first element that must not precede it, computes that array.

  With two or more NaN values the comparer puts each of them before the other. The
  result of \<open>sort\<close> with an inconsistent comparer is left to the engine, so the
  program does not determine the order, and the model gives \<open>None\<close>.
\<close>

fun insert_desc :: "('a \<Rightarrow> jsnum) \<Rightarrow> 'a \<Rightarrow> 'a list \<Rightarrow> 'a list" where
  "insert_desc f x [] = [x]"
| "insert_desc f x (y # ys) =
     (if compareAscending (f x) (f y) < 0 then y # insert_desc f x ys else x # y # ys)"

definition insertion_sort_desc :: "('a \<Rightarrow> jsnum) \<Rightarrow> 'a list \<Rightarrow> 'a list" where
  "insertion_sort_desc f xs = foldr (insert_desc f) xs []"

definition orderBy_desc :: "('a \<Rightarrow> jsnum) \<Rightarrow> 'a list \<Rightarrow> 'a list option" where
  "orderBy_desc f xs =
     (if length (filter (\<lambda>x. isNaN (f x)) xs) \<le> 1 then Some (insertion_sort_desc f xs)
      else None)"

subsection \<open>The views of the army_wx_data dashboard\<close>

record bucket =
  name :: string
  value_b :: jsnum

record type_bucket = bucket +
  percentage :: jsnum

definition costByWeatherType_army :: "event list \<Rightarrow> type_bucket list" where
  "costByWeatherType_army filtered =
     map (\<lambda>(key, items).
            \<lparr>name = key, value_b = sumBy Cost items,
             percentage = Math_round (js_mul (js_div (sumBy Cost items) (sumBy Cost filtered))
                                             (Fin 100))\<rparr>)
         (groupBy (\<lambda>e. ToString (columns e ''Weather Event'')) filtered)"





definition avgCostPerEvent :: "event list \<Rightarrow> jsnum" where
  "avgCostPerEvent filtered = js_div (sumBy Cost filtered) (js_length filtered)"

subsection \<open>The view by category of the primary dashboard\<close>

text \<open>
  The primary dashboard groups by the derived category and sorts the buckets; its effect
  recomputes them only while \<open>weatherData\<close> is not empty.
\<close>

definition costByWeatherType :: "event list \<Rightarrow> type_bucket list option" where
  "costByWeatherType filtered =
     orderBy_desc value_b
       (map (\<lambda>(key, items).
              \<lparr>name = key, value_b = sumBy Cost items,
               percentage = Math_round (js_mul (js_div (sumBy Cost items) (sumBy Cost filtered))
                                               (Fin 100))\<rparr>)
            (groupBy (\<lambda>e. normalizeWeatherType (columns e ''Weather Event'')) filtered))"

section \<open>The rounding of the number model\<close>

text \<open>
  The exponent that \<open>flog2\<close> computes is the binary exponent of its argument, and
  \<open>fl\<close> returns a multiple of the quantum of that binade, at most half a quantum away
  from the exact value. The integer literals of the program are doubles as they stand.
\<close>

lemma bit_length_pos: "0 < k \<Longrightarrow> 0 < bit_length k"
  by (subst bit_length.simps) simp

lemma bit_length_bounds:
  "0 < k \<Longrightarrow> 2 ^ (bit_length k - 1) \<le> k \<and> k < 2 ^ bit_length k"
proof (induction k rule: bit_length.induct)
  case (1 k)
  show ?case
  proof (cases "k div 2 = 0")
    case True
    with "1.prems" have "k = 1" by linarith
    then show ?thesis
      by (simp add: bit_length.simps [of 1] bit_length.simps [of 0])
  next
    case False
    with "1.prems" have p: "0 < k div 2" by linarith
    define n where "n = bit_length (k div 2)"
    from p have n: "0 < n" unfolding n_def by (rule bit_length_pos)
    from "1.IH" "1.prems" p have ih: "2 ^ (n - 1) \<le> k div 2 \<and> k div 2 < 2 ^ n"
      unfolding n_def by simp
    from n have e: "(2::int) ^ n = 2 * 2 ^ (n - 1)"
      by (cases n) simp_all
    have b: "bit_length k = Suc n"
      using "1.prems" unfolding n_def by (subst bit_length.simps) simp
    have "2 * (k div 2) \<le> k" "k < 2 * (k div 2) + 2" by linarith+
    with ih e have "2 ^ n \<le> k \<and> k < 2 * 2 ^ n" by linarith
    with b show ?thesis by simp
  qed
qed

lemma pow2_powi: "pow2 e = 2 powi e"
proof (cases "0 \<le> e")
  case True
  then show ?thesis by (simp add: pow2_def power_int_def)
next
  case False
  have "inverse (2::rat) ^ nat (- e) = 1 / 2 ^ nat (- e)"
    by (simp add: power_one_over inverse_eq_divide)
  with False show ?thesis by (simp add: pow2_def power_int_def)
qed

lemma flog2_bracket:
  assumes "0 < x"
  shows "pow2 (flog2 x) \<le> x \<and> x < pow2 (flog2 x + 1)"
proof -
  obtain a b where q: "quotient_of x = (a, b)" by (cases "quotient_of x")
  then have b: "0 < b" by (rule quotient_of_denom_pos)
  from q have x: "x = of_int a / of_int b" by (rule quotient_of_div)
  with assms b have a: "0 < a" by (simp add: zero_less_divide_iff)
  define la where "la = bit_length a"
  define lb where "lb = bit_length b"
  define e where "e = int la - int lb"
  from a have la: "0 < la" unfolding la_def by (rule bit_length_pos)
  from b have lb: "0 < lb" unfolding lb_def by (rule bit_length_pos)
  from bit_length_bounds [OF a] have a1: "(2::rat) ^ (la - 1) \<le> of_int a"
    and a2: "of_int a < (2::rat) ^ la"
    unfolding la_def by (metis of_int_le_iff of_int_numeral of_int_power, metis of_int_less_iff of_int_numeral of_int_power)
  from bit_length_bounds [OF b] have b1: "(2::rat) ^ (lb - 1) \<le> of_int b"
    and b2: "of_int b < (2::rat) ^ lb"
    unfolding lb_def by (metis of_int_le_iff of_int_numeral of_int_power, metis of_int_less_iff of_int_numeral of_int_power)
  have up: "x < pow2 (e + 1)"
  proof -
    have "of_int a / of_int b < (2::rat) ^ la / 2 ^ (lb - 1)"
      using a a2 b1 by (intro frac_less) simp_all
    also have "\<dots> = 2 powi (int la - int (lb - 1))"
      by (simp add: power_int_diff)
    also have "int la - int (lb - 1) = e + 1"
      using lb by (simp add: e_def of_nat_diff)
    finally show ?thesis by (simp add: x pow2_powi)
  qed
  have lo: "pow2 (e - 1) \<le> x"
  proof -
    have "(2::rat) ^ (la - 1) / 2 ^ lb \<le> of_int a / of_int b"
      using a b a1 b2 by (intro frac_le) simp_all
    moreover have "(2::rat) ^ (la - 1) / 2 ^ lb = 2 powi (int (la - 1) - int lb)"
      by (simp add: power_int_diff)
    moreover have "int (la - 1) - int lb = e - 1"
      using la by (simp add: e_def of_nat_diff)
    ultimately show ?thesis by (simp add: x pow2_powi)
  qed
  have f: "flog2 x = (if pow2 e \<le> x then e else e - 1)"
    by (simp add: flog2_def q Let_def e_def la_def lb_def)
  show ?thesis
  proof (cases "pow2 e \<le> x")
    case True
    with f up show ?thesis by simp
  next
    case False
    with f lo show ?thesis by simp
  qed
qed


lemma pow2_pos: "0 < pow2 e"
  by (simp add: pow2_def)

lemma round_half_even_nearest: "\<bar>x - of_int (round_half_even x)\<bar> \<le> 1 / 2"
proof -
  have "of_int \<lfloor>x\<rfloor> \<le> x" "x < of_int \<lfloor>x\<rfloor> + 1" by linarith+
  then show ?thesis
    by (auto simp add: round_half_even_def Let_def abs_le_iff)
qed

lemma fl_nearest:
  assumes "fl x = Fin r"
  defines "q \<equiv> max (flog2 \<bar>x\<bar> - 52) (- 1074)"
  shows "(\<exists>m. r = of_int m * pow2 q) \<and> \<bar>x - r\<bar> \<le> pow2 q / 2"
proof (cases "x = 0")
  case True
  with assms show ?thesis by (auto simp add: fl_def pow2_pos less_imp_le)
next
  case False
  define m where "m = round_half_even (x / pow2 q)"
  from assms False have r: "r = of_int m * pow2 q"
    by (simp add: fl_def Let_def m_def split: if_splits)
  have "\<bar>x / pow2 q - of_int m\<bar> \<le> 1 / 2"
    unfolding m_def by (rule round_half_even_nearest)
  then have "\<bar>x / pow2 q - of_int m\<bar> * pow2 q \<le> 1 / 2 * pow2 q"
    using pow2_pos [of q] by (intro mult_right_mono) simp_all
  moreover have "\<bar>x / pow2 q - of_int m\<bar> * pow2 q = \<bar>x - of_int m * pow2 q\<bar>"
  proof -
    have "\<bar>x / pow2 q - of_int m\<bar> * pow2 q = \<bar>(x / pow2 q - of_int m) * pow2 q\<bar>"
      using pow2_pos [of q] by (simp add: abs_mult)
    also have "(x / pow2 q - of_int m) * pow2 q = x - of_int m * pow2 q"
      using pow2_pos [of q] by (simp add: left_diff_distrib)
    finally show ?thesis .
  qed
  ultimately show ?thesis using r by auto
qed


lemma integer_literals_exact:
  "fl 24500000 = Fin 24500000 \<and> fl 2000 = Fin 2000 \<and> fl 100 = Fin 100 \<and> fl 1 = Fin 1
   \<and> fl 2000000 = Fin 2000000 \<and> fl 3500000 = Fin 3500000"
  by code_simp

section \<open>The day numbers of years\<close>

text \<open>
  \<open>YearFromDay\<close> meets its specification: the day lies in the year it returns, on or
  after the first day of that year and before the first day of the next.
\<close>

lemma DayFromYear_lower: "146097 * y - 287811596 \<le> 400 * DayFromYear y"
proof -
  define q4 where "q4 = (y - 1969) div 4"
  define q100 where "q100 = (y - 1901) div 100"
  define q400 where "q400 = (y - 1601) div 400"
  have a: "y - 1972 \<le> 4 * q4"
    unfolding q4_def by linarith
  have b: "100 * q100 \<le> y - 1901"
    unfolding q100_def by linarith
  have c: "y - 2000 \<le> 400 * q400"
    unfolding q400_def by linarith
  have "400 * DayFromYear y = 146000 * y - 287620000 + 400 * q4 - 400 * q100 + 400 * q400"
    by (simp add: DayFromYear_def q4_def q100_def q400_def)
  with a b c show ?thesis by linarith
qed

lemma DayFromYear_upper: "400 * DayFromYear y \<le> 146097 * y - 287810501"
proof -
  define q4 where "q4 = (y - 1969) div 4"
  define q100 where "q100 = (y - 1901) div 100"
  define q400 where "q400 = (y - 1601) div 400"
  have a: "4 * q4 \<le> y - 1969"
    unfolding q4_def by linarith
  have b: "y - 2000 \<le> 100 * q100"
    unfolding q100_def by linarith
  have c: "400 * q400 \<le> y - 1601"
    unfolding q400_def by linarith
  have "400 * DayFromYear y = 146000 * y - 287620000 + 400 * q4 - 400 * q100 + 400 * q400"
    by (simp add: DayFromYear_def q4_def q100_def q400_def)
  with a b c show ?thesis by linarith
qed

lemma YearFromDay_bracket:
  "DayFromYear (YearFromDay d) \<le> d \<and> d < DayFromYear (YearFromDay d + 1)"
proof -
  define q where "q = (400 * d) div 146097"
  define a where "a = 1970 + q"
  have q1: "146097 * q \<le> 400 * d"
    unfolding q_def by linarith
  have q2: "400 * d - 146096 \<le> 146097 * q"
    unfolding q_def by linarith
  have u: "400 * DayFromYear (a - 1) \<le> 146097 * q + 287811090 - 146097 - 287810501"
    using DayFromYear_upper [of "a - 1"] by (simp add: a_def algebra_simps)
  have "400 * DayFromYear (a - 1) \<le> 400 * d"
    using u q1 by linarith
  then have lo: "DayFromYear (a - 1) \<le> d"
    by simp
  have l: "146097 * q + 287811090 + 292194 - 287811596 \<le> 400 * DayFromYear (a + 2)"
    using DayFromYear_lower [of "a + 2"] by (simp add: a_def algebra_simps)
  have "400 * d < 400 * DayFromYear (a + 2)"
    using l q2 by linarith
  then have hi: "d < DayFromYear (a + 2)"
    by simp
  from hi have "d < DayFromYear (2 + a)"
    by (simp add: add.commute)
  with lo hi show ?thesis
    by (simp add: YearFromDay_def Let_def flip: a_def q_def)
qed

section \<open>Properties of the scenario calculator\<close>

text \<open>
  C1. With no scenario selected the quotient \<open>totalReduction / selectedScenarios.length\<close>
  is \<open>0 / 0\<close>; the code has no special case for it, and both the mitigated cost and the
  savings it returns are NaN, where the claim expects the baseline 24500000 and 0.
\<close>

theorem calculateScenarioImpact_empty_is_NaN:
  "withMitigation (calculateScenarioImpact []) = NaN
   \<and> savings (calculateScenarioImpact []) = NaN
   \<and> withMitigation (calculateScenarioImpact []) \<noteq> Fin 24500000
   \<and> savings (calculateScenarioImpact []) \<noteq> Fin 0"
  by (simp add: calculateScenarioImpact_def baseProjection_def js_length_def js_sub_def
      js_mul_def)




section \<open>Properties of the classifier\<close>

lemma toLowerCase_char_idem: "toLowerCase_char (toLowerCase_char c) = toLowerCase_char c"
proof -
  have "(of_char c :: nat) < 256" by simp
  then show ?thesis
    by (auto simp add: toLowerCase_char_def Let_def)
qed

lemma toLowerCase_idem: "toLowerCase (toLowerCase s) = toLowerCase s"
  by (simp add: toLowerCase_def toLowerCase_char_idem)

lemma toLowerCase_Nil_iff: "toLowerCase s = [] \<longleftrightarrow> s = []"
  by (simp add: toLowerCase_def)

text \<open>
  C5. The cascade of conditionals is the ordered rule list with the generic first-match
  lookup, on every description; the match does not see the case of the letters; and for
  "Tropical Storm with high wind" both the first rule (tropical) and the third (storm,
  wind) have a keyword in the description, and the first one decides.
\<close>

theorem normalizeWeatherType_first_rule_wins:
  "normalizeWeatherType description = classify_spec description
   \<and> normalizeWeatherType (Some (toLowerCase d)) = normalizeWeatherType (Some d)
   \<and> list_ex (includes_str (trim (toLowerCase ''Tropical Storm with high wind'')))
        [''storm'', ''wind'', ''nor'easter'', ''atmospheric river'']
   \<and> normalizeWeatherType (Some ''Tropical Storm with high wind'') = ''Hurricane/Tropical Storm''
   \<and> normalizeWeatherType (Some ''Tropical Storm with high wind'') \<noteq> ''Severe Storm''"
proof -
  have "normalizeWeatherType description = classify_spec description"
    by (simp add: normalizeWeatherType_def classify_spec_def category_rules_def Let_def
        split: option.split)
  moreover have "normalizeWeatherType (Some (toLowerCase d)) = normalizeWeatherType (Some d)"
    by (simp add: normalizeWeatherType_def toLowerCase_idem toLowerCase_Nil_iff)
  moreover have "list_ex (includes_str (trim (toLowerCase ''Tropical Storm with high wind'')))
        [''storm'', ''wind'', ''nor'easter'', ''atmospheric river'']"
    by code_simp
  moreover have
    "normalizeWeatherType (Some ''Tropical Storm with high wind'') = ''Hurricane/Tropical Storm''"
    by code_simp
  ultimately show ?thesis by simp
qed

text \<open>
  C6. \<open>normalizeWeatherType\<close> is a function with no failing branch: every description,
  absent and empty ones included, gets one of the ten category names; an absent or empty
  description gets \<open>Other\<close>, and the misspelt "TORANDO warning" gets \<open>Tornado\<close>.
\<close>

theorem normalizeWeatherType_total:
  "normalizeWeatherType description \<in> set event_categories
   \<and> distinct event_categories \<and> length event_categories = 10
   \<and> normalizeWeatherType None = ''Other''
   \<and> normalizeWeatherType (Some '''') = ''Other''
   \<and> normalizeWeatherType (Some ''TORANDO warning'') = ''Tornado''"
proof -
  have "normalizeWeatherType description \<in> set event_categories"
    unfolding normalizeWeatherType_def event_categories_def Let_def
    by (simp split: option.split)
  moreover have "distinct event_categories \<and> length event_categories = 10"
    by (simp add: event_categories_def)
  moreover have "normalizeWeatherType None = ''Other''"
    by (simp add: normalizeWeatherType_def)
  moreover have "normalizeWeatherType (Some '''') = ''Other''"
    by (simp add: normalizeWeatherType_def)
  moreover have "normalizeWeatherType (Some ''TORANDO warning'') = ''Tornado''"
    by code_simp
  ultimately show ?thesis by simp
qed

section \<open>Properties of ingestion\<close>

lemma transform_row_Some:
  "item ''Date of Weather Event'' = Some text \<Longrightarrow>
     \<exists>e. transform_row item = Some e \<and> columns e = item"
  by (simp add: transform_row_def Let_def)

lemma hasDate_Some: "hasDate item \<Longrightarrow> \<exists>s. item ''Date of Weather Event'' = Some s"
  by (cases "item ''Date of Weather Event''") (simp_all add: hasDate_def truthy_def)

lemma columns_cleanedData:
  "map columns (cleanedData data) = filter (\<lambda>item. hasCost item \<and> hasDate item) data"
proof (induction data)
  case Nil
  show ?case by (simp add: cleanedData_def List.map_filter_simps)
next
  case (Cons item data)
  show ?case
  proof (cases "hasCost item \<and> hasDate item")
    case True
    then obtain s where "item ''Date of Weather Event'' = Some s"
      using hasDate_Some by blast
    then obtain e where "transform_row item = Some e" "columns e = item"
      using transform_row_Some by blast
    with True Cons show ?thesis
      by (simp add: cleanedData_def List.map_filter_simps)
  next
    case False
    with Cons show ?thesis
      by (auto simp add: cleanedData_def List.map_filter_simps)
  qed
qed

lemma columns_cleanedData_army:
  "map columns (cleanedData_army dateParse data) = filter hasCost data"
  by (induction data) (simp_all add: cleanedData_army_def transform_row_army_def)

text \<open>
  C3. The primary ingestion keeps, in input order, exactly the rows with a parseable
  cost and a non-empty date text, and the army_wx_data ingestion exactly the rows with a
  parseable cost: neither looks at whether the date text is a date. A row with cost
  "1000" and the date text "not a date" is kept by the primary ingestion with an invalid
  date and the year NaN, "02/30/23" is kept as a date of 2023, and a row with no date at
  all is kept by the army_wx_data ingestion; the claim excludes all three.
\<close>

theorem cleanedData_keeps_unparseable_date:
  "map columns (cleanedData data) = filter (\<lambda>item. hasCost item \<and> hasDate item) data
   \<and> map columns (cleanedData_army dateParse data) = filter hasCost data
   \<and> map (\<lambda>e. (Cost e, Year e, date e))
        (cleanedData [[''Cost'' \<mapsto> ''1000'', ''Date of Weather Event'' \<mapsto> ''not a date'']])
      = [(Fin 1000, NaN, NaN)]
   \<and> map (\<lambda>e. (Cost e, Year e))
        (cleanedData [[''Cost'' \<mapsto> ''1000'', ''Date of Weather Event'' \<mapsto> ''02/30/23'']])
      = [(Fin 1000, Fin 2023)]
   \<and> map (\<lambda>e. (Cost e, Year e, date e))
        (cleanedData_army dateParse_strict [[''Cost'' \<mapsto> ''1000'']])
      = [(Fin 1000, NaN, NaN)]"
proof -
  have "map (\<lambda>e. (Cost e, Year e, date e))
        (cleanedData [[''Cost'' \<mapsto> ''1000'', ''Date of Weather Event'' \<mapsto> ''not a date'']])
      = [(Fin 1000, NaN, NaN)]"
    by code_simp
  moreover have "map (\<lambda>e. (Cost e, Year e))
        (cleanedData [[''Cost'' \<mapsto> ''1000'', ''Date of Weather Event'' \<mapsto> ''02/30/23'']])
      = [(Fin 1000, Fin 2023)]"
    by code_simp
  moreover have "map (\<lambda>e. (Cost e, Year e, date e))
        (cleanedData_army dateParse_strict [[''Cost'' \<mapsto> ''1000'']])
      = [(Fin 1000, NaN, NaN)]"
    by code_simp
  ultimately show ?thesis
    using columns_cleanedData [of data] columns_cleanedData_army [of dateParse data] by simp
qed

text \<open>
  C4 as stated fails: for a row with the date 01/15/23 and the \<open>Year\<close> column 1999 the
  primary ingestion computes the year 2023 and the army_wx_data ingestion 1999.
\<close>

theorem year_rules_disagree:
  "map Year (cleanedData
      [[''Cost'' \<mapsto> ''1000'', ''Date of Weather Event'' \<mapsto> ''01/15/23'', ''Year'' \<mapsto> ''1999'']])
     = [Fin 2023]
   \<and> map Year (cleanedData_army dateParse_strict
      [[''Cost'' \<mapsto> ''1000'', ''Date of Weather Event'' \<mapsto> ''01/15/23'', ''Year'' \<mapsto> ''1999'']])
     = [Fin 1999]"
  by code_simp

text \<open>
  C4 (as amended). The two ingestions implement different rules. For a row with a date
  text and a non-empty \<open>Year\<close> column, the army_wx_data ingestion takes \<open>parseFloat\<close> of
  the column, whatever the date is, and the primary ingestion takes \<open>getFullYear\<close> of
  \<open>new Date(2000 + YY, MM - 1, DD)\<close>, whatever the column holds; so the two years are
  the same exactly when the column parses to the year of the date.
\<close>

theorem year_rules_differ:
  assumes "item ''Date of Weather Event'' = Some text" and "truthy (item ''Year'')"
  defines "dateParts \<equiv> split_on CHR ''/'' text"
  defines "derived \<equiv> getFullYear (Date_ymd (js_add (Fin 2000) (parseInt (at_index dateParts 2)))
                         (js_sub (parseInt (at_index dateParts 0)) (Fin 1))
                         (parseInt (at_index dateParts 1)))"
  shows "Year (transform_row_army dateParse item) = parseFloat (ToString (item ''Year''))
     \<and> Year (transform_row_army dateParse (item(''Date of Weather Event'' \<mapsto> other)))
        = Year (transform_row_army dateParse item)
     \<and> map_option Year (transform_row item) = Some derived
     \<and> map_option Year (transform_row (item(''Year'' := y))) = Some derived
     \<and> (map_option Year (transform_row item) = Some (Year (transform_row_army dateParse item))
        \<longleftrightarrow> derived = parseFloat (ToString (item ''Year'')))"
  using assms by (simp add: transform_row_army_def transform_row_def Let_def)

theorem year_rules_differ_witness:
  "Year (transform_row_army dateParse_strict
      [''Cost'' \<mapsto> ''1000'', ''Date of Weather Event'' \<mapsto> ''01/15/23'', ''Year'' \<mapsto> ''1999''])
     = parseFloat ''1999''
   \<and> map_option Year (transform_row
      [''Cost'' \<mapsto> ''1000'', ''Date of Weather Event'' \<mapsto> ''01/15/23'', ''Year'' \<mapsto> ''1999''])
     = Some (Fin 2023)
   \<and> parseFloat ''1999'' = Fin 1999"
proof -
  let ?item = "[''Cost'' \<mapsto> ''1000'', ''Date of Weather Event'' \<mapsto> ''01/15/23'',
                ''Year'' \<mapsto> ''1999'']"
  have d: "?item ''Date of Weather Event'' = Some ''01/15/23''" by simp
  have y: "truthy (?item ''Year'')" by (simp add: truthy_def)
  have t: "ToString (?item ''Year'') = ''1999''" by (simp add: ToString_def)
  have g: "getFullYear (Date_ymd (js_add (Fin 2000) (parseInt (at_index (split_on CHR ''/'' ''01/15/23'') 2)))
                         (js_sub (parseInt (at_index (split_on CHR ''/'' ''01/15/23'') 0)) (Fin 1))
                         (parseInt (at_index (split_on CHR ''/'' ''01/15/23'') 1))) = Fin 2023"
    by code_simp
  have p: "parseFloat ''1999'' = Fin 1999" by code_simp
  note th = year_rules_differ [OF d y, of dateParse_strict]
  from th have "Year (transform_row_army dateParse_strict ?item)
      = parseFloat (ToString (?item ''Year''))"
    by (rule conjunct1)
  then have a: "Year (transform_row_army dateParse_strict ?item) = parseFloat ''1999''"
    by (simp only: t)
  from th have "map_option Year (transform_row ?item)
      = Some (getFullYear (Date_ymd
          (js_add (Fin 2000) (parseInt (at_index (split_on CHR ''/'' ''01/15/23'') 2)))
          (js_sub (parseInt (at_index (split_on CHR ''/'' ''01/15/23'') 0)) (Fin 1))
          (parseInt (at_index (split_on CHR ''/'' ''01/15/23'') 1))))"
    by blast
  then have b: "map_option Year (transform_row ?item) = Some (Fin 2023)"
    by (simp only: g)
  from a b p show ?thesis by blast
qed

text \<open>
  C10. In the primary dashboard, when no row survives the cleaning, \<open>fetchData\<close> leaves
  \<open>weatherData\<close> empty and sets the error "No valid data after cleaning" (behind the
  prefix of its \<open>catch\<close> branch), and the component renders the error; whatever the
  outcome of the request, the dashboard is rendered only with a non-empty event set.
\<close>

theorem fetchData_empty_is_error:
  "(cleanedData rows = [] \<longrightarrow>
      fetchData initial_state (Resolved \<lparr>ok = True, status = s, csv_rows = rows\<rparr>)
        = \<lparr>weatherData = [], loading = False,
           error = Some ''Error fetching data: No valid data after cleaning''\<rparr>
      \<and> render (fetchData initial_state (Resolved \<lparr>ok = True, status = s, csv_rows = rows\<rparr>))
        = ErrorView ''Error fetching data: No valid data after cleaning'')
   \<and> (render (fetchData initial_state outcome) = DashboardView \<longrightarrow>
        weatherData (fetchData initial_state outcome) \<noteq> [])"
  by (cases outcome) (auto simp add: fetchData_def initial_state_def render_def)

theorem fetchData_empty_is_error_witness:
  "cleanedData [[''Cost'' \<mapsto> ''abc'', ''Date of Weather Event'' \<mapsto> ''02/01/23'']] = []
   \<and> render (fetchData initial_state (Resolved \<lparr>ok = True, status = ''200'',
         csv_rows = [[''Cost'' \<mapsto> ''abc'', ''Date of Weather Event'' \<mapsto> ''02/01/23'']]\<rparr>))
      = ErrorView ''Error fetching data: No valid data after cleaning''
   \<and> render (fetchData initial_state (Resolved \<lparr>ok = True, status = ''200'',
         csv_rows = [[''Cost'' \<mapsto> ''1000'', ''Date of Weather Event'' \<mapsto> ''01/15/23'']]\<rparr>))
      = DashboardView
   \<and> weatherData (fetchData initial_state (Resolved \<lparr>ok = True, status = ''200'',
         csv_rows = [[''Cost'' \<mapsto> ''1000'', ''Date of Weather Event'' \<mapsto> ''01/15/23'']]\<rparr>))
      \<noteq> []"
proof -
  have e: "cleanedData [[''Cost'' \<mapsto> ''abc'', ''Date of Weather Event'' \<mapsto> ''02/01/23'']] = []"
    by code_simp
  have v: "render (fetchData initial_state (Resolved \<lparr>ok = True, status = ''200'',
         csv_rows = [[''Cost'' \<mapsto> ''1000'', ''Date of Weather Event'' \<mapsto> ''01/15/23'']]\<rparr>))
      = DashboardView"
    by code_simp
  note th = fetchData_empty_is_error
      [of "[[''Cost'' \<mapsto> ''abc'', ''Date of Weather Event'' \<mapsto> ''02/01/23'']]" "''200''"
        "Resolved \<lparr>ok = True, status = ''200'',
           csv_rows = [[''Cost'' \<mapsto> ''1000'', ''Date of Weather Event'' \<mapsto> ''01/15/23'']]\<rparr>"]
  from th e have r: "render (fetchData initial_state (Resolved \<lparr>ok = True, status = ''200'',
         csv_rows = [[''Cost'' \<mapsto> ''abc'', ''Date of Weather Event'' \<mapsto> ''02/01/23'']]\<rparr>))
      = ErrorView ''Error fetching data: No valid data after cleaning''"
    by blast
  from th v have w: "weatherData (fetchData initial_state (Resolved \<lparr>ok = True, status = ''200'',
         csv_rows = [[''Cost'' \<mapsto> ''1000'', ''Date of Weather Event'' \<mapsto> ''01/15/23'']]\<rparr>))
      \<noteq> []"
    by blast
  from e r v w show ?thesis by blast
qed

section \<open>Properties of the filter stage\<close>

text \<open>
  C8 as stated fails for the army_wx_data dashboard, whose category selector is
  compared with the raw description: an event described as "Hurricane Ian" has the
  derived category Hurricane/Tropical Storm, yet selecting that category removes it, and
  selecting the text "Hurricane Ian" keeps it.
\<close>

theorem filteredData_army_compares_raw_description:
  "normalizeWeatherType (Some ''Hurricane Ian'') = ''Hurricane/Tropical Storm''
   \<and> filteredData_army
        (cleanedData_army dateParse_strict
          [[''Cost'' \<mapsto> ''1000'', ''Year'' \<mapsto> ''2023'', ''Weather Event'' \<mapsto> ''Hurricane Ian'']])
        ''all'' ''Hurricane/Tropical Storm'' = []
   \<and> length (filteredData_army
        (cleanedData_army dateParse_strict
          [[''Cost'' \<mapsto> ''1000'', ''Year'' \<mapsto> ''2023'', ''Weather Event'' \<mapsto> ''Hurricane Ian'']])
        ''all'' ''Hurricane Ian'') = 1"
  by code_simp

text \<open>
  C8 (as amended). Both filters are pure functions that keep, in order, the events that
  satisfy two conditions at once. The first is the same in both: the year selector is
  "all" or its \<open>parseFloat\<close> is strictly equal to the year of the event. The second is, in
  the primary dashboard, that the category selector is "all" or equals the category that
  \<open>normalizeWeatherType\<close> derives from the description; in the army_wx_data dashboard,
  that the selector is "all" or equals the raw description.
\<close>

theorem filteredData_both_conditions:
  "filteredData events y c =
     filter (\<lambda>e. (y = ''all'' \<or> js_eq (Year e) (parseFloat y))
               \<and> (c = ''all'' \<or> normalizeWeatherType (columns e ''Weather Event'') = c)) events
   \<and> filteredData_army events y c =
     filter (\<lambda>e. (y = ''all'' \<or> js_eq (Year e) (parseFloat y))
               \<and> (c = ''all'' \<or> columns e ''Weather Event'' = Some c)) events"
proof -
  have "filteredData events y c =
     filter (\<lambda>e. (y = ''all'' \<or> js_eq (Year e) (parseFloat y))
               \<and> (c = ''all'' \<or> normalizeWeatherType (columns e ''Weather Event'') = c)) events"
    unfolding filteredData_def by (rule filter_cong) auto
  moreover have "filteredData_army events y c =
     filter (\<lambda>e. (y = ''all'' \<or> js_eq (Year e) (parseFloat y))
               \<and> (c = ''all'' \<or> columns e ''Weather Event'' = Some c)) events"
    unfolding filteredData_army_def by (rule filter_cong) auto
  ultimately show ?thesis by (rule conjI)
qed

section \<open>Properties of the aggregates\<close>

text \<open>
  C2. The army_wx_data dashboard divides by the number of filtered events and by their
  total cost without a check. With nothing loaded, and with a year and a description
  selected that no event has together, the filtered set is empty and the average cost is
  \<open>0 / 0\<close>, NaN; with one event of cost 0 the percentage of its group is NaN. Only the
  percentages of the empty set are harmless, there being no group to compute one for.
\<close>

theorem degenerate_aggregates_are_NaN:
  "avgCostPerEvent (filteredData_army (cleanedData_army dateParse []) ''all'' ''all'') = NaN
   \<and> filteredData_army
        (cleanedData_army dateParse_strict
          [[''Cost'' \<mapsto> ''100'', ''Year'' \<mapsto> ''2022'', ''Weather Event'' \<mapsto> ''Flood''],
           [''Cost'' \<mapsto> ''200'', ''Year'' \<mapsto> ''2023'', ''Weather Event'' \<mapsto> ''Hail'']])
        ''2023'' ''Flood'' = []
   \<and> avgCostPerEvent (filteredData_army
        (cleanedData_army dateParse_strict
          [[''Cost'' \<mapsto> ''100'', ''Year'' \<mapsto> ''2022'', ''Weather Event'' \<mapsto> ''Flood''],
           [''Cost'' \<mapsto> ''200'', ''Year'' \<mapsto> ''2023'', ''Weather Event'' \<mapsto> ''Hail'']])
        ''2023'' ''Flood'') = NaN
   \<and> map percentage (costByWeatherType_army (filteredData_army
        (cleanedData_army dateParse_strict
          [[''Cost'' \<mapsto> ''0'', ''Year'' \<mapsto> ''2023'', ''Weather Event'' \<mapsto> ''Flood'']])
        ''all'' ''all'')) = [NaN]
   \<and> costByWeatherType_army [] = []"
proof -
  have "avgCostPerEvent (filteredData_army (cleanedData_army dateParse []) ''all'' ''all'') = NaN"
    by (simp add: avgCostPerEvent_def filteredData_army_def cleanedData_army_def js_length_def)
  moreover have e: "filteredData_army
        (cleanedData_army dateParse_strict
          [[''Cost'' \<mapsto> ''100'', ''Year'' \<mapsto> ''2022'', ''Weather Event'' \<mapsto> ''Flood''],
           [''Cost'' \<mapsto> ''200'', ''Year'' \<mapsto> ''2023'', ''Weather Event'' \<mapsto> ''Hail'']])
        ''2023'' ''Flood'' = []"
    by code_simp
  moreover have "avgCostPerEvent (filteredData_army
        (cleanedData_army dateParse_strict
          [[''Cost'' \<mapsto> ''100'', ''Year'' \<mapsto> ''2022'', ''Weather Event'' \<mapsto> ''Flood''],
           [''Cost'' \<mapsto> ''200'', ''Year'' \<mapsto> ''2023'', ''Weather Event'' \<mapsto> ''Hail'']])
        ''2023'' ''Flood'') = NaN"
    unfolding e by (simp add: avgCostPerEvent_def js_length_def)
  moreover have "map percentage (costByWeatherType_army (filteredData_army
        (cleanedData_army dateParse_strict
          [[''Cost'' \<mapsto> ''0'', ''Year'' \<mapsto> ''2023'', ''Weather Event'' \<mapsto> ''Flood'']])
        ''all'' ''all'')) = [NaN]"
    by code_simp
  moreover have "costByWeatherType_army [] = []"
    by (simp add: costByWeatherType_army_def groupBy_def group_properties_def
        own_keys_order_def)
  ultimately show ?thesis by blast
qed

section \<open>Properties of the view by installation\<close>


































section \<open>An example through the whole pipeline\<close>

text \<open>
  Two rows, the second with the cost "abc": the primary ingestion keeps the first one
  only, as an event of 2023 with the category Hurricane/Tropical Storm, and the view by
  category has that one bucket with 100 percent.
\<close>

lemma pipeline_example:
  "map (\<lambda>e. (Cost e, Year e, normalizeWeatherType (columns e ''Weather Event'')))
     (cleanedData
       [[''Cost'' \<mapsto> ''1000'', ''Date of Weather Event'' \<mapsto> ''01/15/23'',
         ''Weather Event'' \<mapsto> ''Hurricane Ian'', ''Installation'' \<mapsto> ''Fort Bragg''],
        [''Cost'' \<mapsto> ''abc'', ''Date of Weather Event'' \<mapsto> ''02/01/23'',
         ''Weather Event'' \<mapsto> ''Flood'', ''Installation'' \<mapsto> ''Fort Hood'']])
     = [(Fin 1000, Fin 2023, ''Hurricane/Tropical Storm'')]
   \<and> map_option (map (\<lambda>b. (name b, value_b b, percentage b)))
     (costByWeatherType (filteredData (cleanedData
       [[''Cost'' \<mapsto> ''1000'', ''Date of Weather Event'' \<mapsto> ''01/15/23'',
         ''Weather Event'' \<mapsto> ''Hurricane Ian'', ''Installation'' \<mapsto> ''Fort Bragg''],
        [''Cost'' \<mapsto> ''abc'', ''Date of Weather Event'' \<mapsto> ''02/01/23'',
         ''Weather Event'' \<mapsto> ''Flood'', ''Installation'' \<mapsto> ''Fort Hood'']])
       ''all'' ''all''))
     = Some [(''Hurricane/Tropical Storm'', Fin 1000, Fin 100)]"
  by code_simp

end
